theory Spec2Isabelle
  imports Main
begin

section \<open>Python values, errors and dictionaries\<close>

text \<open>
  The payloads of the Hue bridge are JSON documents. A value of a payload is one of the
  following; a dictionary inside a value is an association list read with \<open>map_of\<close>.
\<close>

datatype pyval =
    PNone
  | PBool bool
  | PInt int
  | PStr string
  | PList "pyval list"
  | PDict "(string \<times> pyval) list"

datatype error = KeyError string | TypeError | AttributeError

text \<open>
  A dictionary display \<open>{k1: v1, k2: v2, ...}\<close> is evaluated left to right, a later
  entry replacing an earlier one with an equal key.
\<close>

definition py_dict :: "('k \<times> 'v) list \<Rightarrow> ('k \<rightharpoonup> 'v)" where
  "py_dict kvs = map_of (rev kvs)"

text \<open>\<open>d[k]\<close> on a dictionary raises KeyError for a missing key.\<close>

definition getitem :: "(string \<rightharpoonup> pyval) \<Rightarrow> string \<Rightarrow> error + pyval" where
  "getitem d k = (case d k of None \<Rightarrow> Inl (KeyError k) | Some v \<Rightarrow> Inr v)"

text \<open>\<open>v[k]\<close> on a payload value: only a dictionary can be subscripted by a string.\<close>

fun subscript :: "pyval \<Rightarrow> string \<Rightarrow> error + pyval" where
  "subscript (PDict kvs) k = (case map_of kvs k of None \<Rightarrow> Inl (KeyError k) | Some v \<Rightarrow> Inr v)"
| "subscript _ k = Inl TypeError"

text \<open>\<open>v.get(k)\<close> on a payload value: None for a missing key, no such method off a dictionary.\<close>

fun get_method :: "pyval \<Rightarrow> string \<Rightarrow> error + pyval" where
  "get_method (PDict kvs) k = (case map_of kvs k of None \<Rightarrow> Inr PNone | Some v \<Rightarrow> Inr v)"
| "get_method _ k = Inl AttributeError"

text \<open>
  \<open>TABLE.get(code)\<close> on a table keyed by integers. The key is hashed and compared as
  Python does: \<open>True\<close> and \<open>False\<close> are the integers 1 and 0, None and strings equal no
  integer, and lists and dictionaries are unhashable.
\<close>

fun dict_get :: "(int \<times> string) list \<Rightarrow> pyval \<Rightarrow> error + string option" where
  "dict_get table (PInt k) = Inr (py_dict table k)"
| "dict_get table (PBool b) = Inr (py_dict table (if b then 1 else 0))"
| "dict_get table PNone = Inr None"
| "dict_get table (PStr s) = Inr None"
| "dict_get table (PList xs) = Inl TypeError"
| "dict_get table (PDict kvs) = Inl TypeError"

text \<open>\<open>s.startswith(p)\<close> and \<open>s.split(c)\<close> for a separator of one character.\<close>

definition startswith :: "string \<Rightarrow> string \<Rightarrow> bool" where
  "startswith s p = (take (length p) s = p)"

fun str_split :: "char \<Rightarrow> string \<Rightarrow> string list" where
  "str_split c [] = [[]]"
| "str_split c (x # xs) =
     (if x = c then [] # str_split c xs
      else (case str_split c xs of [] \<Rightarrow> [[x]] | w # ws \<Rightarrow> (x # w) # ws))"


text \<open>\<open>v.split("T")\<close> on a payload value: only a string has the method.\<close>

fun split_T :: "pyval \<Rightarrow> error + pyval" where
  "split_T (PStr s) = Inr (PList (map PStr (str_split (CHR ''T'') s)))"
| "split_T _ = Inl AttributeError"

text \<open>\<open>x or "No data"\<close> for an optional label: None and the empty string are falsy.\<close>

definition or_no_data :: "string option \<Rightarrow> pyval" where
  "or_no_data x = (case x of None \<Rightarrow> PStr ''No data''
                   | Some s \<Rightarrow> if s = [] then PStr ''No data'' else PStr s)"

section \<open>Hue remotes: remote.py\<close>

subsection \<open>Event codes of the vendor library\<close>

text \<open>
  Modelled from the spec: the event-code constants imported from the vendor library aiohue
  are not part of the sources. The spec gives code 1002 for the short release of button 1
  on the dimmer switch. The other values are the vendor library's own: the ZLL codes are
  1000 times the button number plus 0 (initial press), 1 (hold), 2 (short release),
  3 (long release), and the four buttons of the tap switch have the codes 34, 16, 17, 18.
\<close>

definition ZLL_SWITCH_BUTTON_1_INITIAL_PRESS :: int where "ZLL_SWITCH_BUTTON_1_INITIAL_PRESS = 1000"
definition ZLL_SWITCH_BUTTON_2_INITIAL_PRESS :: int where "ZLL_SWITCH_BUTTON_2_INITIAL_PRESS = 2000"
definition ZLL_SWITCH_BUTTON_3_INITIAL_PRESS :: int where "ZLL_SWITCH_BUTTON_3_INITIAL_PRESS = 3000"
definition ZLL_SWITCH_BUTTON_4_INITIAL_PRESS :: int where "ZLL_SWITCH_BUTTON_4_INITIAL_PRESS = 4000"
definition ZLL_SWITCH_BUTTON_1_HOLD :: int where "ZLL_SWITCH_BUTTON_1_HOLD = 1001"
definition ZLL_SWITCH_BUTTON_2_HOLD :: int where "ZLL_SWITCH_BUTTON_2_HOLD = 2001"
definition ZLL_SWITCH_BUTTON_3_HOLD :: int where "ZLL_SWITCH_BUTTON_3_HOLD = 3001"
definition ZLL_SWITCH_BUTTON_4_HOLD :: int where "ZLL_SWITCH_BUTTON_4_HOLD = 4001"
definition ZLL_SWITCH_BUTTON_1_SHORT_RELEASED :: int where "ZLL_SWITCH_BUTTON_1_SHORT_RELEASED = 1002"
definition ZLL_SWITCH_BUTTON_2_SHORT_RELEASED :: int where "ZLL_SWITCH_BUTTON_2_SHORT_RELEASED = 2002"
definition ZLL_SWITCH_BUTTON_3_SHORT_RELEASED :: int where "ZLL_SWITCH_BUTTON_3_SHORT_RELEASED = 3002"
definition ZLL_SWITCH_BUTTON_4_SHORT_RELEASED :: int where "ZLL_SWITCH_BUTTON_4_SHORT_RELEASED = 4002"
definition ZLL_SWITCH_BUTTON_1_LONG_RELEASED :: int where "ZLL_SWITCH_BUTTON_1_LONG_RELEASED = 1003"
definition ZLL_SWITCH_BUTTON_2_LONG_RELEASED :: int where "ZLL_SWITCH_BUTTON_2_LONG_RELEASED = 2003"
definition ZLL_SWITCH_BUTTON_3_LONG_RELEASED :: int where "ZLL_SWITCH_BUTTON_3_LONG_RELEASED = 3003"
definition ZLL_SWITCH_BUTTON_4_LONG_RELEASED :: int where "ZLL_SWITCH_BUTTON_4_LONG_RELEASED = 4003"
definition ZGP_SWITCH_BUTTON_1 :: int where "ZGP_SWITCH_BUTTON_1 = 34"
definition ZGP_SWITCH_BUTTON_2 :: int where "ZGP_SWITCH_BUTTON_2 = 16"
definition ZGP_SWITCH_BUTTON_3 :: int where "ZGP_SWITCH_BUTTON_3 = 17"
definition ZGP_SWITCH_BUTTON_4 :: int where "ZGP_SWITCH_BUTTON_4 = 18"

subsection \<open>The lookup tables\<close>

definition REMOTE_ICONS :: "(string \<times> string) list" where
  "REMOTE_ICONS =
    [(''RWL'', ''mdi:remote''),
     (''ROM'', ''mdi:remote''),
     (''ZGP'', ''mdi:remote''),
     (''FOH'', ''mdi:light-switch''),
     (''Z3-'', ''mdi:light-switch'')]"

definition FOH_BUTTONS :: "(int \<times> string) list" where
  "FOH_BUTTONS =
    [(16, ''left_upper_press''),
     (20, ''left_upper_release''),
     (17, ''left_lower_press''),
     (21, ''left_lower_release''),
     (18, ''right_lower_press''),
     (22, ''right_lower_release''),
     (19, ''right_upper_press''),
     (23, ''right_upper_release''),
     (100, ''double_upper_press''),
     (101, ''double_upper_release''),
     (98, ''double_lower_press''),
     (99, ''double_lower_release'')]"

definition RWL_BUTTONS :: "(int \<times> string) list" where
  "RWL_BUTTONS =
    [(ZLL_SWITCH_BUTTON_1_INITIAL_PRESS, ''1_click''),
     (ZLL_SWITCH_BUTTON_2_INITIAL_PRESS, ''2_click''),
     (ZLL_SWITCH_BUTTON_3_INITIAL_PRESS, ''3_click''),
     (ZLL_SWITCH_BUTTON_4_INITIAL_PRESS, ''4_click''),
     (ZLL_SWITCH_BUTTON_1_HOLD, ''1_hold''),
     (ZLL_SWITCH_BUTTON_2_HOLD, ''2_hold''),
     (ZLL_SWITCH_BUTTON_3_HOLD, ''3_hold''),
     (ZLL_SWITCH_BUTTON_4_HOLD, ''4_hold''),
     (ZLL_SWITCH_BUTTON_1_SHORT_RELEASED, ''1_click_up''),
     (ZLL_SWITCH_BUTTON_2_SHORT_RELEASED, ''2_click_up''),
     (ZLL_SWITCH_BUTTON_3_SHORT_RELEASED, ''3_click_up''),
     (ZLL_SWITCH_BUTTON_4_SHORT_RELEASED, ''4_click_up''),
     (ZLL_SWITCH_BUTTON_1_LONG_RELEASED, ''1_hold_up''),
     (ZLL_SWITCH_BUTTON_2_LONG_RELEASED, ''2_hold_up''),
     (ZLL_SWITCH_BUTTON_3_LONG_RELEASED, ''3_hold_up''),
     (ZLL_SWITCH_BUTTON_4_LONG_RELEASED, ''4_hold_up'')]"

definition TAP_BUTTONS :: "(int \<times> string) list" where
  "TAP_BUTTONS =
    [(ZGP_SWITCH_BUTTON_1, ''1_click''),
     (ZGP_SWITCH_BUTTON_2, ''2_click''),
     (ZGP_SWITCH_BUTTON_3, ''3_click''),
     (ZGP_SWITCH_BUTTON_4, ''4_click'')]"

definition Z3_BUTTON :: "(int \<times> string) list" where
  "Z3_BUTTON =
    [(1000, ''initial_press''),
     (1001, ''repeat''),
     (1002, ''short_release''),
     (1003, ''long_release'')]"

definition Z3_DIAL :: "(int \<times> string) list" where
  "Z3_DIAL = [(1, ''begin''), (2, ''end'')]"

subsection \<open>The vendor sensor object and the entity classes\<close>

text \<open>
  The sensor object of the vendor library is read through its attributes only. The record
  has one field per attribute the entities read; \<open>sensor_type\<close> is the attribute
  \<open>type\<close> and \<open>sensor_on\<close> the attribute \<open>on\<close>. An attribute that a sensor class may
  lack (\<open>battery\<close>, \<open>on\<close>, \<open>reachable\<close>) is optional, None meaning that the object
  has no such attribute.
\<close>

record sensor =
  modelid :: string
  sensor_type :: string
  name :: string
  lastupdated :: pyval
  state :: "string \<rightharpoonup> pyval"
  raw :: "string \<rightharpoonup> pyval"
  battery :: "pyval option"
  sensor_on :: "pyval option"
  reachable :: "pyval option"

datatype remote_class = HueRemoteZLLSwitch | HueRemoteZGPSwitch | HueRemoteZLLRelativeRotary

text \<open>An entity is an instance of one of the three classes, holding its sensor object.\<close>

record remote =
  cls :: remote_class
  sensor :: sensor

text \<open>Reading an attribute that the object may lack.\<close>

definition getattr :: "'a option \<Rightarrow> error + 'a" where
  "getattr a = (case a of None \<Rightarrow> Inl AttributeError | Some v \<Rightarrow> Inr v)"

text \<open>
  Sequencing of expressions that may raise: the first error ends the evaluation.
\<close>

fun and_then :: "error + 'a \<Rightarrow> ('a \<Rightarrow> error + 'b) \<Rightarrow> error + 'b" where
  "and_then (Inl e) f = Inl e"
| "and_then (Inr v) f = f v"

definition HueGenericRemote_icon :: "remote \<Rightarrow> string option" where
  "HueGenericRemote_icon self = py_dict REMOTE_ICONS (take 3 (modelid (sensor self)))"

definition HueGenericRemote_force_update :: "remote \<Rightarrow> bool" where
  "HueGenericRemote_force_update self = True"

text \<open>\<open>turn_on\<close> and \<open>turn_off\<close> have a docstring for a body; the entity they leave is returned.\<close>

definition turn_on :: "remote \<Rightarrow> (string \<times> pyval) list \<Rightarrow> remote" where
  "turn_on self kwargs = self"

definition turn_off :: "remote \<Rightarrow> (string \<times> pyval) list \<Rightarrow> remote" where
  "turn_off self kwargs = self"

definition HueRemoteZLLSwitch_state :: "remote \<Rightarrow> error + string option" where
  "HueRemoteZLLSwitch_state self =
     (if startswith (modelid (sensor self)) ''RWL''
      then and_then (getitem (state (sensor self)) ''buttonevent'') (dict_get RWL_BUTTONS)
      else and_then (getitem (state (sensor self)) ''buttonevent'') (dict_get Z3_BUTTON))"

definition HueRemoteZGPSwitch_state :: "remote \<Rightarrow> error + string option" where
  "HueRemoteZGPSwitch_state self =
     (if startswith (modelid (sensor self)) ''FOH''
      then and_then (getitem (state (sensor self)) ''buttonevent'') (dict_get FOH_BUTTONS)
      else and_then (getitem (state (sensor self)) ''buttonevent'') (dict_get TAP_BUTTONS))"

definition HueRemoteZLLRelativeRotary_state :: "remote \<Rightarrow> error + string option" where
  "HueRemoteZLLRelativeRotary_state self =
     and_then (getitem (state (sensor self)) ''rotaryevent'') (dict_get Z3_DIAL)"

text \<open>\<open>self.state\<close> is the property of the entity's own class.\<close>

definition remote_state :: "remote \<Rightarrow> error + string option" where
  "remote_state self =
     (case cls self of
        HueRemoteZLLSwitch \<Rightarrow> HueRemoteZLLSwitch_state self
      | HueRemoteZGPSwitch \<Rightarrow> HueRemoteZGPSwitch_state self
      | HueRemoteZLLRelativeRotary \<Rightarrow> HueRemoteZLLRelativeRotary_state self)"

text \<open>
  The attributes are built in the order of the source, so that the first failing
  expression is the one that raises.
\<close>

definition HueGenericRemote_device_state_attributes :: "remote \<Rightarrow> error + (string \<rightharpoonup> pyval)" where
  "HueGenericRemote_device_state_attributes self =
     and_then (remote_state self) (\<lambda>st.
     and_then (split_T (lastupdated (sensor self))) (\<lambda>upd.
     let attributes = py_dict
           [(''model'', PStr (sensor_type (sensor self))),
            (''last_button_event'', or_no_data st),
            (''last_updated'', upd)]
     in if battery (sensor self) \<noteq> None
        then and_then (getattr (sensor_on (sensor self))) (\<lambda>on.
             and_then (getattr (reachable (sensor self))) (\<lambda>rch.
             and_then (getattr (battery (sensor self))) (\<lambda>bat.
             Inr (attributes ++ py_dict
                    [(''on'', on), (''reachable'', rch), (''battery_level'', bat)]))))
        else Inr attributes))"

definition HueRemoteZLLRelativeRotary_device_state_attributes ::
    "remote \<Rightarrow> error + (string \<rightharpoonup> pyval)" where
  "HueRemoteZLLRelativeRotary_device_state_attributes self =
     and_then (remote_state self) (\<lambda>st1.
     and_then (getitem (state (sensor self)) ''expectedrotation'') (\<lambda>rot.
     and_then (remote_state self) (\<lambda>st2.
     and_then (getitem (state (sensor self)) ''lastupdated'') (\<lambda>lu.
     and_then (split_T lu) (\<lambda>upd.
     and_then (getitem (raw (sensor self)) ''config'') (\<lambda>cfg1.
     and_then (subscript cfg1 ''on'') (\<lambda>on.
     and_then (getitem (raw (sensor self)) ''config'') (\<lambda>cfg2.
     and_then (subscript cfg2 ''reachable'') (\<lambda>rch.
     and_then (getitem (raw (sensor self)) ''config'') (\<lambda>cfg3.
     and_then (get_method cfg3 ''battery'') (\<lambda>bat.
     and_then (getitem (raw (sensor self)) ''swupdate'') (\<lambda>sw.
     and_then (subscript sw ''state'') (\<lambda>swst.
     Inr (py_dict
           [(''model'', PStr (sensor_type (sensor self))),
            (''dial_state'', or_no_data st1),
            (''dial_position'', rot),
            (''last_button_event'', or_no_data st2),
            (''last_updated'', upd),
            (''name'', PStr (name (sensor self))),
            (''on'', on),
            (''reachable'', rch),
            (''battery_level'', bat),
            (''software_update'', swst)]))))))))))))))"

text \<open>\<open>self.device_state_attributes\<close>: the rotary class overrides the generic property.\<close>

definition device_state_attributes :: "remote \<Rightarrow> error + (string \<rightharpoonup> pyval)" where
  "device_state_attributes self =
     (case cls self of
        HueRemoteZLLRelativeRotary \<Rightarrow> HueRemoteZLLRelativeRotary_device_state_attributes self
      | _ \<Rightarrow> HueGenericRemote_device_state_attributes self)"

subsection \<open>What the properties speak of\<close>

text \<open>
  Following the spec's words: a label of the dimmer switch combines a button number from
  1 to 4 with one of four phases. The code of the bridge for the pair is 1000 times the
  button number plus the number of the phase.
\<close>

datatype phase = Click | Hold | Click_up | Hold_up

fun phase_name :: "phase \<Rightarrow> string" where
  "phase_name Click = ''click''"
| "phase_name Hold = ''hold''"
| "phase_name Click_up = ''click_up''"
| "phase_name Hold_up = ''hold_up''"

fun phase_code :: "phase \<Rightarrow> int" where
  "phase_code Click = 0"
| "phase_code Hold = 1"
| "phase_code Click_up = 2"
| "phase_code Hold_up = 3"

definition button_digit :: "nat \<Rightarrow> char" where
  "button_digit b =
     (if b = 1 then CHR ''1'' else if b = 2 then CHR ''2''
      else if b = 3 then CHR ''3'' else CHR ''4'')"

definition rwl_label :: "nat \<Rightarrow> phase \<Rightarrow> string" where
  "rwl_label b ph = button_digit b # CHR ''_'' # phase_name ph"

text \<open>
  The table and the key of the payload that the \<open>state\<close> property of an entity consults,
  read off the branches of the three classes (lemma \<open>remote_state_lookup\<close> below).
\<close>

definition applicable_table :: "remote \<Rightarrow> (int \<times> string) list" where
  "applicable_table self =
     (case cls self of
        HueRemoteZLLSwitch \<Rightarrow>
          if startswith (modelid (sensor self)) ''RWL'' then RWL_BUTTONS else Z3_BUTTON
      | HueRemoteZGPSwitch \<Rightarrow>
          if startswith (modelid (sensor self)) ''FOH'' then FOH_BUTTONS else TAP_BUTTONS
      | HueRemoteZLLRelativeRotary \<Rightarrow> Z3_DIAL)"

definition event_key :: "remote \<Rightarrow> string" where
  "event_key self =
     (case cls self of HueRemoteZLLRelativeRotary \<Rightarrow> ''rotaryevent'' | _ \<Rightarrow> ''buttonevent'')"

text \<open>
  An event code that \<open>TABLE.get\<close> finds no label for: an integer (or a truth value,
  which is one) that is no key of the table, the null of a remote that was never pressed,
  or a string.
\<close>

fun unmapped :: "(int \<times> string) list \<Rightarrow> pyval \<Rightarrow> bool" where
  "unmapped table (PInt c) = (c \<notin> fst ` set table)"
| "unmapped table (PBool b) = ((if b then 1 else 0) \<notin> fst ` set table)"
| "unmapped table PNone = True"
| "unmapped table (PStr s) = True"
| "unmapped table (PList xs) = False"
| "unmapped table (PDict kvs) = False"

text \<open>Sensors and entities to evaluate the properties on.\<close>

definition example_sensor :: "string \<Rightarrow> string \<Rightarrow> string \<Rightarrow> int \<Rightarrow> pyval option \<Rightarrow> sensor" where
  "example_sensor typ mid key code bat =
     \<lparr>modelid = mid, sensor_type = typ, name = ''Remote'',
      lastupdated = PStr ''2020-05-04T10:11:12'',
      state = [key \<mapsto> PInt code, ''expectedrotation'' \<mapsto> PInt 90,
               ''lastupdated'' \<mapsto> PStr ''2020-05-04T10:11:12''],
      raw = [''config'' \<mapsto> PDict [(''on'', PBool True), (''reachable'', PBool True)],
             ''swupdate'' \<mapsto> PDict [(''state'', PStr ''noupdates'')]],
      battery = bat, sensor_on = Some (PBool True), reachable = Some (PBool True)\<rparr>"

definition rwl_remote :: "int \<Rightarrow> remote" where
  "rwl_remote code =
     \<lparr>cls = HueRemoteZLLSwitch,
      sensor = example_sensor ''ZLLSwitch'' ''RWL021'' ''buttonevent'' code (Some (PInt 80))\<rparr>"

definition rom_remote :: "int \<Rightarrow> remote" where
  "rom_remote code =
     \<lparr>cls = HueRemoteZLLSwitch,
      sensor = example_sensor ''ZLLSwitch'' ''ROM001'' ''buttonevent'' code (Some (PInt 80))\<rparr>"

definition tap_remote :: "int \<Rightarrow> remote" where
  "tap_remote code =
     \<lparr>cls = HueRemoteZGPSwitch,
      sensor = example_sensor ''ZGPSwitch'' ''ZGPSWITCH'' ''buttonevent'' code None\<rparr>"

definition rotary_remote :: "int \<Rightarrow> remote" where
  "rotary_remote code =
     \<lparr>cls = HueRemoteZLLRelativeRotary,
      sensor = example_sensor ''ZLLRelativeRotary'' ''Z3-1BRL'' ''rotaryevent'' code None\<rparr>"

definition never_pressed_remote :: remote where
  "never_pressed_remote =
     (rwl_remote 0)
       \<lparr>sensor := (sensor (rwl_remote 0))
          \<lparr>state := [''buttonevent'' \<mapsto> PNone], lastupdated := PStr ''none''\<rparr>\<rparr>"

text \<open>An attribute of the dictionary an entity returns, None if it raised.\<close>

definition attribute :: "string \<Rightarrow> error + (string \<rightharpoonup> pyval) \<Rightarrow> pyval option" where
  "attribute k r = (case r of Inl e \<Rightarrow> None | Inr attrs \<Rightarrow> attrs k)"

section \<open>Electricity prices: pvpc\_hourly\_pricing/sensor.py\<close>

subsection \<open>Time, the host and the vendor data object\<close>

text \<open>
  A datetime is an instant, counted in microseconds, the resolution of Python's datetimes
  (the time zone of an aware datetime does not change the instant), and
  \<open>timedelta(seconds=n)\<close> is \<open>n\<close> million of them; the configured timeout is a whole
  number of seconds.
\<close>

type_synonym datetime = int

definition timedelta_seconds :: "int \<Rightarrow> int" where
  "timedelta_seconds n = n * 1000000"

text \<open>
  What the entity asks of the host and of the vendor object is recorded, in the order of
  the calls, as a list of effects: the two vendor calls, the log records (the message and
  its arguments), the one-shot and the periodic time triggers with the callback they
  fire, and the immediate and the scheduled write of the entity's state with its
  \<open>force_refresh\<close> flag. An exception that ends a call is its last effect.
\<close>

datatype callback = CB_async_update | CB_async_update_prices

datatype level = DEBUG | WARNING

datatype message =
    Setup_of_price_sensor
  | Downloading_prices_as_there_are_no_valid_ones
  | Repeated_bad_data_update
  | Bad_update_will_try_again
  | Data_source_unavailable_since
  | Component_has_recovered_data_access

datatype logarg = LInt int | LStr string | LTime datetime | LInts "int list"

datatype effect =
    Vendor_async_update_prices datetime
  | Vendor_process_state_and_attributes datetime
  | Log level message "logarg list"
  | Track_point_in_time callback datetime
  | Track_time_change callback "int list" "int list"
  | Update_ha_state bool
  | Schedule_update_ha_state bool
  | Raise error

text \<open>
  The data object of the vendor library, with the attributes the entity reads and
  writes; \<open>data_state\<close> is its attribute \<open>state\<close>, a price once the vendor has processed
  one and the text of the restored state before. The entity never looks into a price, so
  the model is parametric in the type \<open>'p\<close> of prices.
\<close>

datatype 'p state_value = No_state | Restored string | Price 'p

record 'p pvpc_data =
  tariff :: string
  timeout :: int
  source_available :: bool
  state_available :: bool
  data_state :: "'p state_value"
  attributes :: "string \<rightharpoonup> pyval"
  current_prices :: "(datetime \<times> 'p) list"

text \<open>
  The surroundings of one call of the entity: the clock readings \<open>dt_util.utcnow()\<close> and
  \<open>dt_util.now()\<close>, the \<open>last_changed\<close> of the entity's state in the host's state
  machine (None when \<open>hass.states.get\<close> finds no state for the entity, and reading
  \<open>last_changed\<close> off it raises), the state the host restores, the value that
  \<open>randint(1, 29)\<close> draws, and what
  the two methods of the vendor object do to the data object on this call: the fetch
  returns the prices it got (none for an empty or a failed download), the processing
  returns whether there is a valid price for the hour. The vendor library is not part of
  the sources, so a theorem says of the two methods what it needs.
\<close>

record 'p env =
  utcnow :: datetime
  now_local :: datetime
  last_changed :: "datetime option"
  last_state :: "string option"
  randint_1_29 :: int
  vendor_async_update_prices ::
    "'p pvpc_data \<Rightarrow> datetime \<Rightarrow> (datetime \<times> 'p) list \<times> 'p pvpc_data"
  process_state_and_attributes :: "'p pvpc_data \<Rightarrow> datetime \<Rightarrow> bool \<times> 'p pvpc_data"

subsection \<open>The entity\<close>

type_synonym subscription = "callback \<times> int list \<times> int list"

text \<open>The fields of the class, without their leading underscore; \<open>e_name\<close> is \<open>_name\<close>.\<close>

record 'p ElecPriceSensor =
  e_name :: string
  entity_id :: string
  pvpc_data :: "'p pvpc_data"
  num_retries :: int
  init_done :: bool
  hourly_tracker :: "subscription option"
  price_tracker :: "subscription option"

definition ElecPriceSensor_init :: "string \<Rightarrow> string \<Rightarrow> 'p pvpc_data \<Rightarrow> 'p ElecPriceSensor" where
  "ElecPriceSensor_init nm eid pvpc_data_handler =
     \<lparr>e_name = nm, entity_id = eid, pvpc_data = pvpc_data_handler, num_retries = 0,
      init_done = False, hourly_tracker = None, price_tracker = None\<rparr>"

definition ElecPriceSensor_state :: "'p ElecPriceSensor \<Rightarrow> 'p state_value" where
  "ElecPriceSensor_state self = data_state (pvpc_data self)"

definition available :: "'p ElecPriceSensor \<Rightarrow> bool" where
  "available self = state_available (pvpc_data self)"

definition ElecPriceSensor_device_state_attributes :: "'p ElecPriceSensor \<Rightarrow> (string \<rightharpoonup> pyval)" where
  "ElecPriceSensor_device_state_attributes self = attributes (pvpc_data self)"

text \<open>
  \<open>async_update_prices\<close>: \<open>not prices\<close> holds of an empty result. The entity after the
  call and the effects of the call are returned. The two log records that name the
  \<open>last_changed\<close> of the entity's state evaluate it before anything is logged, so that
  without a state in the host the call ends there with AttributeError.
\<close>

definition async_update_prices ::
    "'p env \<Rightarrow> 'p ElecPriceSensor \<Rightarrow> datetime \<Rightarrow> 'p ElecPriceSensor \<times> effect list" where
  "async_update_prices env self now =
     (let (prices, d) = vendor_async_update_prices env (pvpc_data self) now;
          self1 = self\<lparr>pvpc_data := d\<rparr>;
          fx = [Vendor_async_update_prices now]
      in if prices = [] \<and> source_available (pvpc_data self1) then
           (let self2 = self1\<lparr>num_retries := num_retries self1 + 1\<rparr>
            in if num_retries self2 > 2 then
                 (self2\<lparr>pvpc_data := (pvpc_data self2)\<lparr>source_available := False\<rparr>\<rparr>,
                  fx @ [Log WARNING Repeated_bad_data_update []])
               else
                 (let retry_delay = 3 * timeout (pvpc_data self2)
                  in (self2,
                      fx @ [Log DEBUG Bad_update_will_try_again
                              [LInt (num_retries self2), LInt retry_delay],
                            Track_point_in_time CB_async_update_prices
                              (now_local env + timedelta_seconds retry_delay)])))
         else if prices = [] then
           (self1,
            fx @ (case last_changed env of
                    None \<Rightarrow> [Raise AttributeError]
                  | Some since \<Rightarrow> [Log DEBUG Data_source_unavailable_since [LTime since]]))
         else
           (let self2 = self1\<lparr>num_retries := 0\<rparr>
            in if \<not> source_available (pvpc_data self2) then
                 (self2\<lparr>pvpc_data := (pvpc_data self2)\<lparr>source_available := True\<rparr>\<rparr>,
                  fx @ (case last_changed env of
                          None \<Rightarrow> [Raise AttributeError]
                        | Some since \<Rightarrow>
                            [Log WARNING Component_has_recovered_data_access [LTime since],
                             Schedule_update_ha_state True]))
               else (self2, fx)))"

definition async_update :: "'p env \<Rightarrow> 'p ElecPriceSensor \<Rightarrow> 'p ElecPriceSensor \<times> effect list" where
  "async_update env self =
     (if \<not> init_done self then (self, [])
      else
        (let now = utcnow env;
             (valid, d) = process_state_and_attributes env (pvpc_data self) now;
             self1 = self\<lparr>pvpc_data := d\<rparr>;
             fx = [Vendor_process_state_and_attributes now]
         in if valid then (self1, fx @ [Update_ha_state False])
            else
              (let self2 = self1\<lparr>pvpc_data := (pvpc_data self1)\<lparr>state_available := False\<rparr>\<rparr>;
                   fx2 = fx @ [Schedule_update_ha_state False] @
                     (if source_available (pvpc_data self2)
                      then [Log DEBUG Downloading_prices_as_there_are_no_valid_ones
                              [LStr (entity_id self2)],
                            Track_point_in_time CB_async_update
                              (now + timedelta_seconds (timeout (pvpc_data self2)))]
                      else []);
                   (self3, fx3) = async_update_prices env self2 now
               in (self3, fx2 @ fx3))))"

text \<open>
  \<open>async_added_to_hass\<close>. An exception of the first price update ends the call before
  the flag is set. The awaited \<open>async_update_ha_state(True)\<close> of the host runs the
  entity's \<open>async_update\<close> before it writes the state, so the effects of that update
  follow the effect of the call; the host catches what that update raises.
\<close>

fun is_raise :: "effect \<Rightarrow> bool" where
  "is_raise (Raise e) = True"
| "is_raise _ = False"

definition raised :: "effect list \<Rightarrow> bool" where
  "raised fx = list_ex is_raise fx"

definition async_added_to_hass ::
    "'p env \<Rightarrow> 'p ElecPriceSensor \<Rightarrow> 'p ElecPriceSensor \<times> effect list" where
  "async_added_to_hass env self =
     (let self1 = (case last_state env of
                     None \<Rightarrow> self
                   | Some st \<Rightarrow> self\<lparr>pvpc_data := (pvpc_data self)\<lparr>data_state := Restored st\<rparr>\<rparr>);
          self2 = self1\<lparr>hourly_tracker := Some (CB_async_update, [0], [0])\<rparr>;
          random_minute = randint_1_29 env;
          mins_update = [random_minute, random_minute + 30];
          self3 = self2\<lparr>price_tracker := Some (CB_async_update_prices, [0], mins_update)\<rparr>;
          fx = [Track_time_change CB_async_update [0] [0],
                Track_time_change CB_async_update_prices [0] mins_update,
                Log DEBUG Setup_of_price_sensor
                  [LStr (e_name self3), LStr (entity_id self3),
                   LStr (tariff (pvpc_data self3)), LInts mins_update]];
          (self4, fx4) = async_update_prices env self3 (utcnow env)
      in if raised fx4 then (self4, fx @ fx4)
         else
           (let self5 = self4\<lparr>init_done := True\<rparr>;
                (self6, fx6) = async_update env self5
            in (self6, fx @ fx4 @ [Update_ha_state True] @ fx6)))"

subsection \<open>Runs of the entity\<close>

text \<open>
  The host calls the entity back: on a price tick (the periodic one or a retry), on a
  state tick (the hourly one, a delayed one or a forced refresh), and once when the
  entity is added. A run is the list of these calls, each with its surroundings.
\<close>

datatype 'p event =
    Price_tick "'p env" datetime
  | State_tick "'p env"
  | Added_to_hass "'p env"

fun fire :: "'p event \<Rightarrow> 'p ElecPriceSensor \<Rightarrow> 'p ElecPriceSensor \<times> effect list" where
  "fire (Price_tick env now) self = async_update_prices env self now"
| "fire (State_tick env) self = async_update env self"
| "fire (Added_to_hass env) self = async_added_to_hass env self"

fun run :: "'p event list \<Rightarrow> 'p ElecPriceSensor \<Rightarrow> 'p ElecPriceSensor" where
  "run [] self = self"
| "run (ev # evs) self = run evs (fst (fire ev self))"




text \<open>The one-shot triggers among the effects of a call.\<close>

fun is_track_point :: "effect \<Rightarrow> bool" where
  "is_track_point (Track_point_in_time cb t) = True"
| "is_track_point _ = False"

fun is_fetch :: "effect \<Rightarrow> bool" where
  "is_fetch (Vendor_async_update_prices t) = True"
| "is_fetch _ = False"

subsection \<open>What the properties of the price sensor speak of\<close>



text \<open>The one-shot triggers of a given callback.\<close>

fun is_track_of :: "callback \<Rightarrow> effect \<Rightarrow> bool" where
  "is_track_of cb (Track_point_in_time cb' t) = (cb' = cb)"
| "is_track_of cb _ = False"

text \<open>
  A data object, three kinds of surroundings at a clock reading (a fetch that fails and no
  valid price; a fetch that returns a price and a valid price; a fetch that returns a
  price for the next day only and no valid price), and entities to evaluate the
  properties on: one fresh from the constructor, one added while fetches fail, one added
  while they succeed, and the latter after an hourly tick without a valid price and two
  retries, all three fetches failing.
\<close>

definition example_data :: "int pvpc_data" where
  "example_data =
     \<lparr>tariff = ''normal'', timeout = 5, source_available = True, state_available = False,
      data_state = No_state, attributes = Map.empty, current_prices = []\<rparr>"

definition failing_env :: "datetime \<Rightarrow> int env" where
  "failing_env clock =
     \<lparr>utcnow = clock, now_local = clock, last_changed = Some 0, last_state = None,
      randint_1_29 = 7,
      vendor_async_update_prices = (\<lambda>d t. ([], d)),
      process_state_and_attributes = (\<lambda>d t. (False, d\<lparr>state_available := False\<rparr>))\<rparr>"

definition ok_env :: "datetime \<Rightarrow> int env" where
  "ok_env clock =
     \<lparr>utcnow = clock, now_local = clock, last_changed = Some 0, last_state = None,
      randint_1_29 = 7,
      vendor_async_update_prices = (\<lambda>d t. ([(t, 12)], d\<lparr>current_prices := [(t, 12)]\<rparr>)),
      process_state_and_attributes =
        (\<lambda>d t. (True, d\<lparr>state_available := True, data_state := Price 12\<rparr>))\<rparr>"

definition stale_env :: "datetime \<Rightarrow> int env" where
  "stale_env clock =
     \<lparr>utcnow = clock, now_local = clock, last_changed = Some 0, last_state = None,
      randint_1_29 = 7,
      vendor_async_update_prices =
        (\<lambda>d t. ([(t + 86400000000, 12)], d\<lparr>current_prices := [(t + 86400000000, 12)]\<rparr>)),
      process_state_and_attributes = (\<lambda>d t. (False, d\<lparr>state_available := False\<rparr>))\<rparr>"

definition example_entity :: "int ElecPriceSensor" where
  "example_entity = ElecPriceSensor_init ''pvpc'' ''sensor.pvpc'' example_data"

definition added_entity :: "int ElecPriceSensor" where
  "added_entity = run [Added_to_hass (failing_env 600000000)] example_entity"




section \<open>Properties of the Hue remotes\<close>

lemmas aiohue_codes =
  ZLL_SWITCH_BUTTON_1_INITIAL_PRESS_def ZLL_SWITCH_BUTTON_2_INITIAL_PRESS_def
  ZLL_SWITCH_BUTTON_3_INITIAL_PRESS_def ZLL_SWITCH_BUTTON_4_INITIAL_PRESS_def
  ZLL_SWITCH_BUTTON_1_HOLD_def ZLL_SWITCH_BUTTON_2_HOLD_def
  ZLL_SWITCH_BUTTON_3_HOLD_def ZLL_SWITCH_BUTTON_4_HOLD_def
  ZLL_SWITCH_BUTTON_1_SHORT_RELEASED_def ZLL_SWITCH_BUTTON_2_SHORT_RELEASED_def
  ZLL_SWITCH_BUTTON_3_SHORT_RELEASED_def ZLL_SWITCH_BUTTON_4_SHORT_RELEASED_def
  ZLL_SWITCH_BUTTON_1_LONG_RELEASED_def ZLL_SWITCH_BUTTON_2_LONG_RELEASED_def
  ZLL_SWITCH_BUTTON_3_LONG_RELEASED_def ZLL_SWITCH_BUTTON_4_LONG_RELEASED_def
  ZGP_SWITCH_BUTTON_1_def ZGP_SWITCH_BUTTON_2_def ZGP_SWITCH_BUTTON_3_def ZGP_SWITCH_BUTTON_4_def

lemma py_dict_None: "py_dict kvs k = None \<longleftrightarrow> k \<notin> fst ` set kvs"
  by (simp add: py_dict_def map_of_eq_None_iff)




lemma RWL_1002: "py_dict RWL_BUTTONS 1002 = Some ''1_click_up''"
  by (simp add: py_dict_def RWL_BUTTONS_def aiohue_codes)

lemma TAP_keys: "fst ` set TAP_BUTTONS = {34, 16, 17, 18}"
  by (simp add: TAP_BUTTONS_def aiohue_codes)

lemma remote_state_lookup:
  "remote_state self =
     and_then (getitem (state (sensor self)) (event_key self)) (dict_get (applicable_table self))"
  by (cases "cls self")
     (simp_all add: remote_state_def applicable_table_def event_key_def
        HueRemoteZLLSwitch_state_def HueRemoteZGPSwitch_state_def
        HueRemoteZLLRelativeRotary_state_def)

lemma dict_get_unmapped: "unmapped table code \<Longrightarrow> dict_get table code = Inr None"
  by (cases code) (auto simp: py_dict_None)

lemma remote_state_unmapped:
  assumes "state (sensor self) (event_key self) = Some code"
    and "unmapped (applicable_table self) code"
  shows "remote_state self = Inr None"
  using assms by (simp add: remote_state_lookup getitem_def dict_get_unmapped)

lemma and_then_Inr: "and_then x f = Inr y \<Longrightarrow> \<exists>v. x = Inr v \<and> f v = Inr y"
  by (cases x) auto

lemma generic_attrs_event:
  assumes "HueGenericRemote_device_state_attributes self = Inr attrs"
  shows "\<exists>st. remote_state self = Inr st \<and> attrs ''last_button_event'' = Some (or_no_data st)"
proof -
  from assms obtain st where st: "remote_state self = Inr st"
    unfolding HueGenericRemote_device_state_attributes_def by (auto dest: and_then_Inr)
  from assms st obtain upd where upd: "split_T (lastupdated (sensor self)) = Inr upd"
    unfolding HueGenericRemote_device_state_attributes_def by (auto dest: and_then_Inr)
  have "attrs ''last_button_event'' = Some (or_no_data st)"
  proof (cases "battery (sensor self) = None")
    case True
    with assms st upd show ?thesis
      by (auto simp: HueGenericRemote_device_state_attributes_def py_dict_def)
  next
    case False
    with assms st upd show ?thesis
      by (auto simp: HueGenericRemote_device_state_attributes_def py_dict_def Let_def
            map_add_def dest!: and_then_Inr)
  qed
  with st show ?thesis by blast
qed

lemma getitem_Inr: "getitem d k = Inr v \<longleftrightarrow> d k = Some v"
  by (simp add: getitem_def split: option.splits)

lemma split_T_Inr:
  "split_T v = Inr u \<longleftrightarrow> (\<exists>s. v = PStr s \<and> u = PList (map PStr (str_split (CHR ''T'') s)))"
  by (cases v) auto

lemma rotary_attrs:
  assumes "HueRemoteZLLRelativeRotary_device_state_attributes self = Inr attrs"
  shows "\<exists>st rot s. remote_state self = Inr st
           \<and> state (sensor self) ''expectedrotation'' = Some rot
           \<and> state (sensor self) ''lastupdated'' = Some (PStr s)
           \<and> attrs ''last_button_event'' = Some (or_no_data st)
           \<and> attrs ''dial_state'' = Some (or_no_data st)
           \<and> attrs ''dial_position'' = Some rot
           \<and> attrs ''last_updated'' = Some (PList (map PStr (str_split (CHR ''T'') s)))"
  using assms unfolding HueRemoteZLLRelativeRotary_device_state_attributes_def
  by (auto dest!: and_then_Inr simp: getitem_Inr split_T_Inr py_dict_def)

lemmas examples = example_sensor_def rwl_remote_def rom_remote_def tap_remote_def
  rotary_remote_def

lemmas hue_eval = remote_state_def HueRemoteZLLSwitch_state_def HueRemoteZGPSwitch_state_def
  HueRemoteZLLRelativeRotary_state_def device_state_attributes_def
  HueGenericRemote_device_state_attributes_def
  HueRemoteZLLRelativeRotary_device_state_attributes_def HueGenericRemote_icon_def
  startswith_def getitem_def getattr_def py_dict_def or_no_data_def
  RWL_BUTTONS_def Z3_BUTTON_def FOH_BUTTONS_def TAP_BUTTONS_def Z3_DIAL_def REMOTE_ICONS_def
  aiohue_codes

lemma TAP_dom: "dom (py_dict TAP_BUTTONS) = {34, 16, 17, 18}"
  by (simp add: py_dict_def dom_map_of_conv_image_fst TAP_keys)

text \<open>
  C1: for a ZLL switch whose model id starts with RWL, the state for button event 1002 is
  the label 1\_click\_up; for a ZGP switch that is not a Friends-of-Hue one, the same code
  is looked up in the tap table, whose codes are 34, 16, 17 and 18, and the state is None,
  the "no data" sentinel.
\<close>

theorem C1_rwl_1002_click_up_tap_no_data:
  assumes "cls r = HueRemoteZLLSwitch"
    and "startswith (modelid (sensor r)) ''RWL''"
    and "state (sensor r) ''buttonevent'' = Some (PInt 1002)"
    and "cls z = HueRemoteZGPSwitch"
    and "\<not> startswith (modelid (sensor z)) ''FOH''"
    and "state (sensor z) ''buttonevent'' = Some (PInt 1002)"
  shows "remote_state r = Inr (Some ''1_click_up'')
       \<and> remote_state z = Inr None
       \<and> dom (py_dict TAP_BUTTONS) = {34, 16, 17, 18}
       \<and> 1002 \<notin> dom (py_dict TAP_BUTTONS)"
proof -
  have "remote_state r = Inr (Some ''1_click_up'')"
    using assms(1-3)
    by (simp add: remote_state_def HueRemoteZLLSwitch_state_def getitem_def RWL_1002)
  moreover have "py_dict TAP_BUTTONS 1002 = None"
    by (simp add: py_dict_None TAP_keys)
  then have "remote_state z = Inr None"
    using assms(4-6)
    by (simp add: remote_state_def HueRemoteZGPSwitch_state_def getitem_def)
  ultimately show ?thesis by (simp add: TAP_dom)
qed

theorem C1_witness:
  "remote_state (rwl_remote 1002) = Inr (Some ''1_click_up'')
   \<and> remote_state (tap_remote 1002) = Inr None"
  using C1_rwl_1002_click_up_tap_no_data [of "rwl_remote 1002" "tap_remote 1002"]
  by (simp add: examples startswith_def)

text \<open>
  C2: for every event code that the table the entity consults (one of RWL\_BUTTONS,
  Z3\_BUTTON, FOH\_BUTTONS, TAP\_BUTTONS, Z3\_DIAL) has no label for, be it an integer that
  is no key or the null of a remote never pressed, the state is None and is returned, not
  raised. Every attribute dictionary the entity returns has "No data" as its
  last\_button\_event, and the entity does return one whenever the rest of the payload is
  there: for a generic entity a timestamp that is a string and, with a battery, the
  attributes on and reachable; for the rotary the rotation, the timestamp, and the
  configuration and software-update dictionaries with their entries.
\<close>

theorem C2_unmapped_code_no_data:
  assumes "state (sensor self) (event_key self) = Some code"
    and "unmapped (applicable_table self) code"
  shows "applicable_table self \<in> {RWL_BUTTONS, Z3_BUTTON, FOH_BUTTONS, TAP_BUTTONS, Z3_DIAL}
       \<and> remote_state self =
           and_then (getitem (state (sensor self)) (event_key self))
             (dict_get (applicable_table self))
       \<and> remote_state self = Inr None
       \<and> (\<forall>attrs. device_state_attributes self = Inr attrs
             \<longrightarrow> attrs ''last_button_event'' = Some (PStr ''No data''))
       \<and> (\<forall>s. cls self \<noteq> HueRemoteZLLRelativeRotary \<and> battery (sensor self) = None
               \<and> lastupdated (sensor self) = PStr s
             \<longrightarrow> device_state_attributes self =
                   Inr (py_dict [(''model'', PStr (sensor_type (sensor self))),
                                 (''last_button_event'', PStr ''No data''),
                                 (''last_updated'', PList (map PStr (str_split (CHR ''T'') s)))]))
       \<and> (\<forall>s bat on rch. cls self \<noteq> HueRemoteZLLRelativeRotary
               \<and> battery (sensor self) = Some bat \<and> sensor_on (sensor self) = Some on
               \<and> reachable (sensor self) = Some rch \<and> lastupdated (sensor self) = PStr s
             \<longrightarrow> device_state_attributes self =
                   Inr (py_dict [(''model'', PStr (sensor_type (sensor self))),
                                 (''last_button_event'', PStr ''No data''),
                                 (''last_updated'', PList (map PStr (str_split (CHR ''T'') s)))]
                        ++ py_dict [(''on'', on), (''reachable'', rch), (''battery_level'', bat)])
                 \<and> attribute ''last_button_event'' (device_state_attributes self)
                     = Some (PStr ''No data''))
       \<and> (\<forall>rot s cfg on rch sw swst. cls self = HueRemoteZLLRelativeRotary
               \<and> state (sensor self) ''expectedrotation'' = Some rot
               \<and> state (sensor self) ''lastupdated'' = Some (PStr s)
               \<and> raw (sensor self) ''config'' = Some (PDict cfg)
               \<and> map_of cfg ''on'' = Some on \<and> map_of cfg ''reachable'' = Some rch
               \<and> raw (sensor self) ''swupdate'' = Some (PDict sw)
               \<and> map_of sw ''state'' = Some swst
             \<longrightarrow> device_state_attributes self =
                   Inr (py_dict
                         [(''model'', PStr (sensor_type (sensor self))),
                          (''dial_state'', PStr ''No data''),
                          (''dial_position'', rot),
                          (''last_button_event'', PStr ''No data''),
                          (''last_updated'', PList (map PStr (str_split (CHR ''T'') s))),
                          (''name'', PStr (name (sensor self))),
                          (''on'', on),
                          (''reachable'', rch),
                          (''battery_level'',
                             case map_of cfg ''battery'' of None \<Rightarrow> PNone | Some v \<Rightarrow> v),
                          (''software_update'', swst)])
                 \<and> attribute ''last_button_event'' (device_state_attributes self)
                     = Some (PStr ''No data''))"
proof -
  have tab: "applicable_table self \<in> {RWL_BUTTONS, Z3_BUTTON, FOH_BUTTONS, TAP_BUTTONS, Z3_DIAL}"
    by (cases "cls self") (simp_all add: applicable_table_def)
  have st: "remote_state self = Inr None"
    using assms by (rule remote_state_unmapped)
  have attrs: "attrs ''last_button_event'' = Some (PStr ''No data'')"
    if "device_state_attributes self = Inr attrs" for attrs
  proof (cases "cls self = HueRemoteZLLRelativeRotary")
    case True
    with that have "HueRemoteZLLRelativeRotary_device_state_attributes self = Inr attrs"
      by (simp add: device_state_attributes_def)
    from rotary_attrs [OF this] st show ?thesis by (auto simp: or_no_data_def)
  next
    case False
    with that have "HueGenericRemote_device_state_attributes self = Inr attrs"
      by (cases "cls self") (simp_all add: device_state_attributes_def)
    from generic_attrs_event [OF this] st show ?thesis by (auto simp: or_no_data_def)
  qed
  have plain: "device_state_attributes self =
      Inr (py_dict [(''model'', PStr (sensor_type (sensor self))),
                    (''last_button_event'', PStr ''No data''),
                    (''last_updated'', PList (map PStr (str_split (CHR ''T'') s)))])"
    if "cls self \<noteq> HueRemoteZLLRelativeRotary" "battery (sensor self) = None"
      "lastupdated (sensor self) = PStr s" for s
    using that st
    by (cases "cls self")
       (simp_all add: device_state_attributes_def HueGenericRemote_device_state_attributes_def
          or_no_data_def)
  have powered: "device_state_attributes self =
      Inr (py_dict [(''model'', PStr (sensor_type (sensor self))),
                    (''last_button_event'', PStr ''No data''),
                    (''last_updated'', PList (map PStr (str_split (CHR ''T'') s)))]
           ++ py_dict [(''on'', on), (''reachable'', rch), (''battery_level'', bat)])"
    if "cls self \<noteq> HueRemoteZLLRelativeRotary" "battery (sensor self) = Some bat"
      "sensor_on (sensor self) = Some on" "reachable (sensor self) = Some rch"
      "lastupdated (sensor self) = PStr s" for s bat on rch
    using that st
    by (cases "cls self")
       (simp_all add: device_state_attributes_def HueGenericRemote_device_state_attributes_def
          or_no_data_def getattr_def)
  have dial: "device_state_attributes self =
      Inr (py_dict
            [(''model'', PStr (sensor_type (sensor self))),
             (''dial_state'', PStr ''No data''),
             (''dial_position'', rot),
             (''last_button_event'', PStr ''No data''),
             (''last_updated'', PList (map PStr (str_split (CHR ''T'') s))),
             (''name'', PStr (name (sensor self))),
             (''on'', on),
             (''reachable'', rch),
             (''battery_level'', case map_of cfg ''battery'' of None \<Rightarrow> PNone | Some v \<Rightarrow> v),
             (''software_update'', swst)])"
    if "cls self = HueRemoteZLLRelativeRotary"
      "state (sensor self) ''expectedrotation'' = Some rot"
      "state (sensor self) ''lastupdated'' = Some (PStr s)"
      "raw (sensor self) ''config'' = Some (PDict cfg)"
      "map_of cfg ''on'' = Some on" "map_of cfg ''reachable'' = Some rch"
      "raw (sensor self) ''swupdate'' = Some (PDict sw)"
      "map_of sw ''state'' = Some swst" for rot s cfg on rch sw swst
    using that st
    by (simp add: device_state_attributes_def
          HueRemoteZLLRelativeRotary_device_state_attributes_def or_no_data_def getitem_def
        split: option.splits)
  have powered_event: "attribute ''last_button_event'' (device_state_attributes self)
      = Some (PStr ''No data'')"
    if "cls self \<noteq> HueRemoteZLLRelativeRotary" "battery (sensor self) = Some bat"
      "sensor_on (sensor self) = Some on" "reachable (sensor self) = Some rch"
      "lastupdated (sensor self) = PStr s" for s bat on rch
    using powered [OF that] attrs by (simp add: attribute_def)
  have dial_event: "attribute ''last_button_event'' (device_state_attributes self)
      = Some (PStr ''No data'')"
    if "cls self = HueRemoteZLLRelativeRotary"
      "state (sensor self) ''expectedrotation'' = Some rot"
      "state (sensor self) ''lastupdated'' = Some (PStr s)"
      "raw (sensor self) ''config'' = Some (PDict cfg)"
      "map_of cfg ''on'' = Some on" "map_of cfg ''reachable'' = Some rch"
      "raw (sensor self) ''swupdate'' = Some (PDict sw)"
      "map_of sw ''state'' = Some swst" for rot s cfg on rch sw swst
    using dial [OF that] attrs by (simp add: attribute_def)
  from tab st attrs plain powered powered_event dial dial_event show ?thesis
    by (simp add: remote_state_lookup [symmetric])
qed

theorem C2_witness:
  "remote_state (tap_remote 1002) = Inr None
   \<and> device_state_attributes (tap_remote 1002) =
       Inr (py_dict [(''model'', PStr ''ZGPSwitch''),
                     (''last_button_event'', PStr ''No data''),
                     (''last_updated'', PList [PStr ''2020-05-04'', PStr ''10:11:12''])])
   \<and> attribute ''last_button_event'' (device_state_attributes (rwl_remote 5))
       = Some (PStr ''No data'')
   \<and> attribute ''last_button_event'' (device_state_attributes (rotary_remote 3))
       = Some (PStr ''No data'')
   \<and> remote_state never_pressed_remote = Inr None
   \<and> attribute ''last_button_event'' (device_state_attributes never_pressed_remote)
       = Some (PStr ''No data'')"
proof -
  have ev: "state (sensor (tap_remote 1002)) (event_key (tap_remote 1002)) = Some (PInt 1002)"
    by (simp add: examples event_key_def)
  have out: "unmapped (applicable_table (tap_remote 1002)) (PInt 1002)"
    by (simp add: examples applicable_table_def startswith_def TAP_BUTTONS_def aiohue_codes)
  have shape: "cls (tap_remote 1002) \<noteq> HueRemoteZLLRelativeRotary
      \<and> battery (sensor (tap_remote 1002)) = None
      \<and> lastupdated (sensor (tap_remote 1002)) = PStr ''2020-05-04T10:11:12''"
    by (simp add: examples)
  note tap = C2_unmapped_code_no_data [OF ev out]
  from tap have t1: "remote_state (tap_remote 1002) = Inr None" by blast
  from tap shape have t2: "device_state_attributes (tap_remote 1002) =
      Inr (py_dict [(''model'', PStr (sensor_type (sensor (tap_remote 1002)))),
                    (''last_button_event'', PStr ''No data''),
                    (''last_updated'',
                     PList (map PStr (str_split (CHR ''T'') ''2020-05-04T10:11:12'')))])"
    by blast
  have ev5: "state (sensor (rwl_remote 5)) (event_key (rwl_remote 5)) = Some (PInt 5)"
    by (simp add: examples event_key_def)
  have out5: "unmapped (applicable_table (rwl_remote 5)) (PInt 5)"
    by (simp add: examples applicable_table_def startswith_def RWL_BUTTONS_def aiohue_codes)
  have shape5: "cls (rwl_remote 5) \<noteq> HueRemoteZLLRelativeRotary
      \<and> battery (sensor (rwl_remote 5)) = Some (PInt 80)
      \<and> sensor_on (sensor (rwl_remote 5)) = Some (PBool True)
      \<and> reachable (sensor (rwl_remote 5)) = Some (PBool True)
      \<and> lastupdated (sensor (rwl_remote 5)) = PStr ''2020-05-04T10:11:12''"
    by (simp add: examples)
  from C2_unmapped_code_no_data [OF ev5 out5] shape5
  have r: "attribute ''last_button_event'' (device_state_attributes (rwl_remote 5))
      = Some (PStr ''No data'')"
    by blast
  have ev3: "state (sensor (rotary_remote 3)) (event_key (rotary_remote 3)) = Some (PInt 3)"
    by (simp add: examples event_key_def)
  have out3: "unmapped (applicable_table (rotary_remote 3)) (PInt 3)"
    by (simp add: examples applicable_table_def Z3_DIAL_def)
  have shape3: "cls (rotary_remote 3) = HueRemoteZLLRelativeRotary
      \<and> state (sensor (rotary_remote 3)) ''expectedrotation'' = Some (PInt 90)
      \<and> state (sensor (rotary_remote 3)) ''lastupdated'' = Some (PStr ''2020-05-04T10:11:12'')
      \<and> raw (sensor (rotary_remote 3)) ''config''
          = Some (PDict [(''on'', PBool True), (''reachable'', PBool True)])
      \<and> map_of [(''on'', PBool True), (''reachable'', PBool True)] ''on'' = Some (PBool True)
      \<and> map_of [(''on'', PBool True), (''reachable'', PBool True)] ''reachable''
          = Some (PBool True)
      \<and> raw (sensor (rotary_remote 3)) ''swupdate''
          = Some (PDict [(''state'', PStr ''noupdates'')])
      \<and> map_of [(''state'', PStr ''noupdates'')] ''state'' = Some (PStr ''noupdates'')"
    by (simp add: examples)
  from C2_unmapped_code_no_data [OF ev3 out3] shape3
  have d: "attribute ''last_button_event'' (device_state_attributes (rotary_remote 3))
      = Some (PStr ''No data'')"
    by blast
  have ev0: "state (sensor never_pressed_remote) (event_key never_pressed_remote) = Some PNone"
    by (simp add: never_pressed_remote_def examples event_key_def)
  have out0: "unmapped (applicable_table never_pressed_remote) PNone"
    by simp
  have shape0: "cls never_pressed_remote \<noteq> HueRemoteZLLRelativeRotary
      \<and> battery (sensor never_pressed_remote) = Some (PInt 80)
      \<and> sensor_on (sensor never_pressed_remote) = Some (PBool True)
      \<and> reachable (sensor never_pressed_remote) = Some (PBool True)
      \<and> lastupdated (sensor never_pressed_remote) = PStr ''none''"
    by (simp add: never_pressed_remote_def examples)
  note never = C2_unmapped_code_no_data [OF ev0 out0]
  from never have n1: "remote_state never_pressed_remote = Inr None" by blast
  from never shape0
  have n2: "attribute ''last_button_event'' (device_state_attributes never_pressed_remote)
      = Some (PStr ''No data'')"
    by blast
  from t1 t2 r d n1 n2 show ?thesis by (simp add: examples)
qed

lemma RWL_BUTTONS_shape:
  "RWL_BUTTONS =
     concat (map (\<lambda>ph. map (\<lambda>b. (1000 * int b + phase_code ph, rwl_label b ph)) [1, 2, 3, 4])
               [Click, Hold, Click_up, Hold_up])"
  by (simp add: RWL_BUTTONS_def aiohue_codes rwl_label_def button_digit_def)

lemma RWL_BUTTONS_keys_distinct: "distinct (map fst RWL_BUTTONS)"
  by (simp add: RWL_BUTTONS_def aiohue_codes)

lemma zll_state_cases:
  assumes "cls self = HueRemoteZLLSwitch"
    and "state (sensor self) ''buttonevent'' = Some code"
  shows "remote_state self =
     (if startswith (modelid (sensor self)) ''RWL''
      then dict_get RWL_BUTTONS code else dict_get Z3_BUTTON code)"
  using assms by (simp add: remote_state_def HueRemoteZLLSwitch_state_def getitem_def)

text \<open>
  C3, as stated, fails: the entity of a Hue smart button (model ROM001) is a ZLL switch, and
  its state for button event 1002 is short\_release, a label of the four-entry table
  Z3\_BUTTON, where the 16-entry table has 1\_click\_up.
\<close>

theorem C3_counterexample:
  "cls (rom_remote 1002) = HueRemoteZLLSwitch
   \<and> state (sensor (rom_remote 1002)) ''buttonevent'' = Some (PInt 1002)
   \<and> remote_state (rom_remote 1002) = Inr (Some ''short_release'')
   \<and> dict_get RWL_BUTTONS (PInt 1002) = Inr (Some ''1_click_up'')
   \<and> remote_state (rom_remote 1002) \<noteq> dict_get RWL_BUTTONS (PInt 1002)"
  by (simp add: hue_eval examples)

text \<open>
  C3, amended: a ZLL switch whose model id starts with RWL maps its button event through
  the 16-entry table RWL\_BUTTONS, whose labels combine the button numbers 1 to 4 with the
  phases click, hold, click\_up and hold\_up; every other ZLL switch maps it through the
  four-entry table Z3\_BUTTON, with the labels initial\_press, repeat, short\_release and
  long\_release for the codes 1000 to 1003.
\<close>

theorem C3_zll_switch_tables:
  assumes "cls self = HueRemoteZLLSwitch"
    and "state (sensor self) ''buttonevent'' = Some code"
  shows "(startswith (modelid (sensor self)) ''RWL''
            \<longrightarrow> remote_state self = dict_get RWL_BUTTONS code)
       \<and> (\<not> startswith (modelid (sensor self)) ''RWL''
            \<longrightarrow> remote_state self = dict_get Z3_BUTTON code)
       \<and> length RWL_BUTTONS = 16
       \<and> distinct (map fst RWL_BUTTONS)
       \<and> RWL_BUTTONS =
           concat (map (\<lambda>ph. map (\<lambda>b. (1000 * int b + phase_code ph, rwl_label b ph))
                               [1, 2, 3, 4])
                     [Click, Hold, Click_up, Hold_up])
       \<and> Z3_BUTTON = [(1000, ''initial_press''), (1001, ''repeat''),
                       (1002, ''short_release''), (1003, ''long_release'')]"
proof -
  have "length RWL_BUTTONS = 16" by (simp add: RWL_BUTTONS_def)
  with zll_state_cases [OF assms] RWL_BUTTONS_keys_distinct RWL_BUTTONS_shape
  show ?thesis by (simp add: Z3_BUTTON_def)
qed

theorem C3_witness:
  "remote_state (rwl_remote 3001) = Inr (Some ''3_hold'')
   \<and> remote_state (rom_remote 1001) = Inr (Some ''repeat'')"
proof -
  have a: "cls (rwl_remote 3001) = HueRemoteZLLSwitch"
    and b: "state (sensor (rwl_remote 3001)) ''buttonevent'' = Some (PInt 3001)"
    and c: "startswith (modelid (sensor (rwl_remote 3001))) ''RWL''"
    by (simp_all add: examples startswith_def)
  have a': "cls (rom_remote 1001) = HueRemoteZLLSwitch"
    and b': "state (sensor (rom_remote 1001)) ''buttonevent'' = Some (PInt 1001)"
    and c': "\<not> startswith (modelid (sensor (rom_remote 1001))) ''RWL''"
    by (simp_all add: examples startswith_def)
  from C3_zll_switch_tables [OF a b] c
  have "remote_state (rwl_remote 3001) = dict_get RWL_BUTTONS (PInt 3001)" by blast
  moreover from C3_zll_switch_tables [OF a' b'] c'
  have "remote_state (rom_remote 1001) = dict_get Z3_BUTTON (PInt 1001)" by blast
  ultimately show ?thesis
    by (simp add: py_dict_def RWL_BUTTONS_def Z3_BUTTON_def aiohue_codes)
qed




text \<open>
  C10: \<open>turn_on\<close> and \<open>turn_off\<close> leave the entity as it is for every input, so its state,
  icon and attributes are the same after as before.
\<close>

theorem C10_turn_on_off_no_ops:
  "turn_on self kwargs = self \<and> turn_off self kwargs = self
   \<and> remote_state (turn_on self kwargs) = remote_state self
   \<and> remote_state (turn_off self kwargs) = remote_state self
   \<and> HueGenericRemote_icon (turn_on self kwargs) = HueGenericRemote_icon self
   \<and> HueGenericRemote_icon (turn_off self kwargs) = HueGenericRemote_icon self
   \<and> device_state_attributes (turn_on self kwargs) = device_state_attributes self
   \<and> device_state_attributes (turn_off self kwargs) = device_state_attributes self"
  by (simp add: turn_on_def turn_off_def)

theorem C10_witness:
  "turn_on (rwl_remote 1002) [(''activity'', PStr ''x'')] = rwl_remote 1002
   \<and> remote_state (turn_off (rwl_remote 1002) []) = Inr (Some ''1_click_up'')
   \<and> HueGenericRemote_icon (turn_on (rwl_remote 1002) []) = Some ''mdi:remote''"
  using C10_turn_on_off_no_ops [of "rwl_remote 1002" "[(''activity'', PStr ''x'')]"]
    C10_turn_on_off_no_ops [of "rwl_remote 1002" "[]"]
  by (simp add: hue_eval examples)

section \<open>Properties of the price sensor\<close>

lemma aup_retry:
  assumes "vendor_async_update_prices env (pvpc_data self) now = ([], d)"
    and "source_available d" and "num_retries self + 1 \<le> 2"
  shows "async_update_prices env self now =
     (self\<lparr>pvpc_data := d, num_retries := num_retries self + 1\<rparr>,
      [Vendor_async_update_prices now,
       Log DEBUG Bad_update_will_try_again [LInt (num_retries self + 1), LInt (3 * timeout d)],
       Track_point_in_time CB_async_update_prices
         (now_local env + timedelta_seconds (3 * timeout d))])"
  using assms by (simp add: async_update_prices_def Let_def)





lemma aup_recovered_no_state:
  assumes "vendor_async_update_prices env (pvpc_data self) now = (prices, d)"
    and "prices \<noteq> []" and "\<not> source_available d" and "last_changed env = None"
  shows "snd (async_update_prices env self now) =
      [Vendor_async_update_prices now, Raise AttributeError]"
  using assms by (simp add: async_update_prices_def)


lemma aup_fetch_once:
  "filter is_fetch (snd (async_update_prices env self now)) = [Vendor_async_update_prices now]"
  by (simp add: async_update_prices_def Let_def split: prod.splits option.splits)

lemma aup_no_track_update:
  "filter (is_track_of CB_async_update) (snd (async_update_prices env self now)) = []"
  by (simp add: async_update_prices_def Let_def split: prod.splits option.splits)

lemma aup_state_available:
  "state_available (pvpc_data (fst (async_update_prices env self now))) =
     state_available (snd (vendor_async_update_prices env (pvpc_data self) now))"
  by (simp add: async_update_prices_def Let_def split: prod.splits)

















lemmas pvpc_examples = example_data_def failing_env_def ok_env_def stale_env_def
  example_entity_def
  ElecPriceSensor_init_def

text \<open>
  C5: when the fetch comes back empty, the source is marked available and the retry
  counter plus one is at most 2, \<open>async_update_prices\<close> adds exactly one to the counter,
  asks for exactly one one-shot call of itself 3 times the timeout seconds after the
  clock reading, and leaves the source marked available; nothing else of the entity
  changes.
\<close>

theorem C5_empty_fetch_schedules_retry:
  assumes "vendor_async_update_prices env (pvpc_data self) now = ([], d)"
    and "source_available d"
    and "num_retries self + 1 \<le> 2"
  shows "num_retries (fst (async_update_prices env self now)) = num_retries self + 1
       \<and> source_available (pvpc_data (fst (async_update_prices env self now)))
       \<and> filter is_track_point (snd (async_update_prices env self now)) =
           [Track_point_in_time CB_async_update_prices
              (now_local env + timedelta_seconds (3 * timeout d))]
       \<and> (now_local env + timedelta_seconds (3 * timeout d)) - now_local env
           = 3 * timeout d * 1000000
       \<and> fst (async_update_prices env self now) =
           self\<lparr>pvpc_data := d, num_retries := num_retries self + 1\<rparr>"
  using aup_retry [OF assms] assms(2) by (simp add: timedelta_seconds_def)

theorem C5_witness:
  "num_retries (fst (async_update_prices (failing_env 600000000) example_entity 600000000)) = 1
   \<and> source_available
       (pvpc_data (fst (async_update_prices (failing_env 600000000) example_entity 600000000)))
   \<and> filter is_track_point
       (snd (async_update_prices (failing_env 600000000) example_entity 600000000)) =
       [Track_point_in_time CB_async_update_prices 615000000]"
proof -
  have f: "vendor_async_update_prices (failing_env 600000000) (pvpc_data example_entity)
             600000000 = ([], example_data)"
    by (simp add: pvpc_examples)
  have a: "source_available example_data" by (simp add: pvpc_examples)
  have n: "num_retries example_entity + 1 \<le> 2" by (simp add: pvpc_examples)
  from C5_empty_fetch_schedules_retry [OF f a n] show ?thesis
    by (simp add: pvpc_examples timedelta_seconds_def)
qed


lemmas pvpc_eval = async_update_prices_def async_update_def async_added_to_hass_def
  timedelta_seconds_def available_def Let_def raised_def



lemma added_entity_eval:
  "added_entity =
     \<lparr>e_name = ''pvpc'', entity_id = ''sensor.pvpc'', pvpc_data = example_data,
      num_retries = 2, init_done = True,
      hourly_tracker = Some (CB_async_update, [0], [0]),
      price_tracker = Some (CB_async_update_prices, [0], [7, 37])\<rparr>"
  by (simp add: added_entity_def pvpc_eval pvpc_examples)







text \<open>
  C8: \<open>async_update\<close> on an initialised entity. With a valid price for the hour it writes
  the state and fetches nothing. Without one it marks the state unavailable, schedules a
  write of the state, calls \<open>async_update_prices\<close> on the entity so marked, which fetches
  once, and, if the source is marked available, asks for one call of itself the timeout
  seconds after the clock reading.
\<close>

theorem C8_hourly_refresh:
  assumes "init_done self"
    and "process_state_and_attributes env (pvpc_data self) (utcnow env) = (valid, d)"
  shows "(valid \<longrightarrow>
            async_update env self =
              (self\<lparr>pvpc_data := d\<rparr>,
               [Vendor_process_state_and_attributes (utcnow env), Update_ha_state False])
          \<and> filter is_fetch (snd (async_update env self)) = [])
       \<and> (\<not> valid \<longrightarrow>
            async_update env self =
              (fst (async_update_prices env
                      (self\<lparr>pvpc_data := d\<lparr>state_available := False\<rparr>\<rparr>) (utcnow env)),
               [Vendor_process_state_and_attributes (utcnow env), Schedule_update_ha_state False]
               @ (if source_available d
                  then [Log DEBUG Downloading_prices_as_there_are_no_valid_ones
                          [LStr (entity_id self)],
                        Track_point_in_time CB_async_update
                          (utcnow env + timedelta_seconds (timeout d))]
                  else [])
               @ snd (async_update_prices env
                        (self\<lparr>pvpc_data := d\<lparr>state_available := False\<rparr>\<rparr>) (utcnow env)))
          \<and> filter is_fetch (snd (async_update env self)) =
              [Vendor_async_update_prices (utcnow env)]
          \<and> filter (is_track_of CB_async_update) (snd (async_update env self)) =
              (if source_available d
               then [Track_point_in_time CB_async_update
                       (utcnow env + timedelta_seconds (timeout d))]
               else [])
          \<and> (utcnow env + timedelta_seconds (timeout d)) - utcnow env = timeout d * 1000000
          \<and> state_available (pvpc_data (fst (async_update env self))) =
              state_available
                (snd (vendor_async_update_prices env (d\<lparr>state_available := False\<rparr>)
                        (utcnow env))))"
proof (cases valid)
  case True
  with assms show ?thesis by (simp add: async_update_def)
next
  case False
  let ?s2 = "self\<lparr>pvpc_data := d\<lparr>state_available := False\<rparr>\<rparr>"
  let ?r = "async_update_prices env ?s2 (utcnow env)"
  have eq: "async_update env self =
      (fst ?r,
       [Vendor_process_state_and_attributes (utcnow env), Schedule_update_ha_state False]
       @ (if source_available d
          then [Log DEBUG Downloading_prices_as_there_are_no_valid_ones [LStr (entity_id self)],
                Track_point_in_time CB_async_update
                  (utcnow env + timedelta_seconds (timeout d))]
          else [])
       @ snd ?r)"
    using assms False by (simp add: async_update_def Let_def split: prod.splits)
  have fetch: "filter is_fetch (snd (async_update env self)) =
      [Vendor_async_update_prices (utcnow env)]"
    by (simp add: eq aup_fetch_once)
  have track: "filter (is_track_of CB_async_update) (snd (async_update env self)) =
      (if source_available d
       then [Track_point_in_time CB_async_update (utcnow env + timedelta_seconds (timeout d))]
       else [])"
    by (simp add: eq aup_no_track_update)
  have flag: "state_available (pvpc_data (fst (async_update env self))) =
      state_available
        (snd (vendor_async_update_prices env (d\<lparr>state_available := False\<rparr>) (utcnow env)))"
    by (simp add: eq aup_state_available)
  from False eq fetch track flag show ?thesis
    by (simp add: timedelta_seconds_def)
qed

theorem C8_witness:
  "\<not> state_available (pvpc_data (fst (async_update (failing_env 3600000000) added_entity)))
   \<and> filter is_fetch (snd (async_update (failing_env 3600000000) added_entity)) =
       [Vendor_async_update_prices 3600000000]
   \<and> filter (is_track_of CB_async_update)
       (snd (async_update (failing_env 3600000000) added_entity)) =
       [Track_point_in_time CB_async_update 3605000000]
   \<and> snd (async_update (ok_env 3600000000) added_entity) =
       [Vendor_process_state_and_attributes 3600000000, Update_ha_state False]"
proof -
  have i: "init_done added_entity" by (simp add: added_entity_eval)
  have p: "process_state_and_attributes (failing_env 3600000000) (pvpc_data added_entity)
             (utcnow (failing_env 3600000000)) = (False, example_data)"
    by (simp add: added_entity_eval pvpc_examples)
  have q: "process_state_and_attributes (ok_env 3600000000) (pvpc_data added_entity)
             (utcnow (ok_env 3600000000)) =
             (True, example_data\<lparr>state_available := True, data_state := Price 12\<rparr>)"
    by (simp add: added_entity_eval pvpc_examples)
  from C8_hourly_refresh [OF i p] C8_hourly_refresh [OF i q] show ?thesis
    by (simp add: pvpc_examples pvpc_eval added_entity_eval)
qed

text \<open>
  C9: \<open>async_update\<close> on an entity whose \<open>init_done\<close> flag is false returns the entity as
  it is, with no effect; this is so of every entity fresh from the constructor.
\<close>

theorem C9_async_update_before_init:
  assumes "\<not> init_done self"
  shows "async_update env self = (self, [])
       \<and> \<not> init_done (ElecPriceSensor_init nm eid d)
       \<and> async_update env' (ElecPriceSensor_init nm eid d) = (ElecPriceSensor_init nm eid d, [])"
  using assms by (simp add: async_update_def ElecPriceSensor_init_def)

theorem C9_witness:
  "async_update (ok_env 3600000000) example_entity = (example_entity, [])"
proof -
  have "\<not> init_done example_entity" by (simp add: pvpc_examples)
  from C9_async_update_before_init [OF this] show ?thesis by blast
qed

end
